theory Spec2Isabelle
  imports Main "HOL-Library.Char_ord" "HOL-Library.List_Lexorder"
begin

section \<open>Data model (rapid/models.py)\<close>

text \<open>
  The persistent store is a relational database. Every model class is a table, modelled
  as the list of its rows; a foreign key holds the primary key of the row it refers to.
  Geometries are values of a type \<open>'g\<close>; the intersection test of the spatial
  database (\<^verbatim>\<open>geom__intersects\<close>) is a parameter of the functions that use it.
  A column declared without \<^verbatim>\<open>null=True\<close> holds a value in every row (the
  descriptors, the flags); a nullable one holds an option.
  Columns that none of the functions below reads or writes are left out: the bounding
  boxes, the timestamps, and the flags \<^verbatim>\<open>include_layers\<close>, \<^verbatim>\<open>include_geom\<close> and
  \<^verbatim>\<open>include_features\<close> that steer serialisation.
\<close>

datatype Role = VIEWER | EDITOR | OWNER

text \<open>The integer of each enumeration value (\<^verbatim>\<open>VIEWER = 0, EDITOR = 1, OWNER = 2\<close>).\<close>

fun role_value :: "Role \<Rightarrow> nat" where
  "role_value VIEWER = 0"
| "role_value EDITOR = 1"
| "role_value OWNER = 2"

record ApiToken =
  tok_uid :: string
  tok_key :: string
  tok_descriptor :: string

record DataLayer =
  dl_uid :: string
  dl_descriptor :: string
  dl_properties :: "string option"
  dl_is_public :: bool

record 'g Feature =
  f_uid :: string
  f_geom :: "'g option"
  f_properties :: "string option"
  f_layer :: "string option"
  f_hash :: "string option"

text \<open>
  \<open>gv_layers\<close> is the many-to-many field \<^verbatim>\<open>layers\<close>: the primary keys of the
  associated layers, one per association row, in the order of the rows.
  \<open>gv_token_key\<close> is the unpublished field the view function sets before serialising.
\<close>

record 'g GeoView =
  gv_uid :: string
  gv_descriptor :: string
  gv_geom :: "'g option"
  gv_properties :: "string option"
  gv_layers :: "string list"
  gv_is_public :: bool
  gv_token_key :: "string option"

record GeoViewRole =
  gvr_token_id :: string
  gvr_role :: Role
  gvr_geo_view_id :: string

record DataLayerRole =
  dlr_token_id :: string
  dlr_role :: Role
  dlr_layer_id :: string

record 'g db =
  apitokens :: "ApiToken list"
  datalayers :: "DataLayer list"
  features :: "'g Feature list"
  geoviews :: "'g GeoView list"
  geoviewroles :: "GeoViewRole list"
  datalayerroles :: "DataLayerRole list"

text \<open>
  Exceptions are values: \<open>TypeError\<close> and \<open>ValueError\<close> are Python's,
  \<open>IntegrityError\<close> is the database's refusal of a row, \<open>NotPermitted\<close> and
  \<open>DuplicateContent\<close> are the typed failures of the specification.
\<close>

datatype error = TypeError | ValueError | IntegrityError | DuplicateContent | NotPermitted

section \<open>The permission resolver: \<^verbatim>\<open>DataLayer.has_permissions\<close>\<close>

text \<open>
  \<^verbatim>\<open>DataLayerRole.objects.filter(token__key=k, layer__uid=u, role=r)\<close>: the rows of
  the layer role table whose token row has key \<open>k\<close> (a join with the token table),
  whose layer is \<open>u\<close> and whose role is \<open>r\<close>.
\<close>

definition token_has_key :: "'g db \<Rightarrow> string \<Rightarrow> string \<Rightarrow> bool" where
  "token_has_key s tid k = list_ex (\<lambda>t. tok_uid t = tid \<and> tok_key t = k) (apitokens s)"

definition filter_key_layer_role :: "'g db \<Rightarrow> string \<Rightarrow> string \<Rightarrow> Role \<Rightarrow> DataLayerRole list" where
  "filter_key_layer_role s k u r =
     filter (\<lambda>b. token_has_key s (dlr_token_id b) k \<and> dlr_layer_id b = u \<and> dlr_role b = r)
       (datalayerroles s)"

text \<open>
  \<^verbatim>\<open>not token_key\<close> holds for \<^verbatim>\<open>None\<close> and for the empty string; both are the
  branches before the lookup.
\<close>

definition has_permissions :: "'g db \<Rightarrow> DataLayer \<Rightarrow> string option \<Rightarrow> Role \<Rightarrow> bool" where
  "has_permissions s self token_key role =
     (if dl_is_public self \<and> role = VIEWER then True
      else case token_key of
        None \<Rightarrow> False
      | Some k \<Rightarrow>
          if k = [] then False
          else
            let owners = filter_key_layer_role s k (dl_uid self) OWNER;
                editors = filter_key_layer_role s k (dl_uid self) EDITOR;
                viewers = filter_key_layer_role s k (dl_uid self) VIEWER
            in (case role of
                  OWNER \<Rightarrow> length owners > 0
                | EDITOR \<Rightarrow> length owners > 0 \<or> length editors > 0
                | VIEWER \<Rightarrow> length owners > 0 \<or> length editors > 0 \<or> length viewers > 0))"

section \<open>The resolver as the specification words it\<close>

text \<open>
  The specification describes the same decision as a comparison: take all role bindings
  of the credential on the resource, compute the maximum role present (none when there is
  no binding) and compare it with the required role under
  \<open>Viewer < Editor < Owner\<close>.
\<close>

fun max_role :: "Role list \<Rightarrow> Role option" where
  "max_role [] = None"
| "max_role (r # rs) =
     (case max_role rs of
        None \<Rightarrow> Some r
      | Some m \<Rightarrow> Some (if role_value m \<le> role_value r then r else m))"

definition bindings_of :: "'g db \<Rightarrow> ApiToken \<Rightarrow> DataLayer \<Rightarrow> DataLayerRole list" where
  "bindings_of s c l =
     filter (\<lambda>b. dlr_token_id b = tok_uid c \<and> dlr_layer_id b = dl_uid l) (datalayerroles s)"

definition spec_has_permission :: "'g db \<Rightarrow> ApiToken \<Rightarrow> DataLayer \<Rightarrow> Role \<Rightarrow> bool" where
  "spec_has_permission s c l r =
     (case max_role (map dlr_role (bindings_of s c l)) of
        None \<Rightarrow> False
      | Some m \<Rightarrow> role_value r \<le> role_value m)"

text \<open>
  The constraints of the token table: \<^verbatim>\<open>uid\<close> is the primary key and \<^verbatim>\<open>key\<close> is
  declared \<^verbatim>\<open>unique\<close>.
\<close>

definition tokens_ok :: "'g db \<Rightarrow> bool" where
  "tokens_ok s \<longleftrightarrow> distinct (map tok_uid (apitokens s)) \<and> distinct (map tok_key (apitokens s))"

section \<open>The projection: \<^verbatim>\<open>GeoView.get_features\<close>\<close>

text \<open>
  \<^verbatim>\<open>self.layers.all()\<close>: the layer rows joined with the association rows of the
  view. The query has no ordering clause, so the order of the result is the database's and
  not the order in which the associations were made: the join is answered from the index
  of the association table on view and layer, which yields the rows of one view in
  ascending order of the layer identifier.
\<close>

definition layers_join :: "'g db \<Rightarrow> 'g GeoView \<Rightarrow> DataLayer list" where
  "layers_join s self =
     concat (map (\<lambda>u. filter (\<lambda>l. dl_uid l = u) (datalayers s)) (gv_layers self))"

definition layers_all :: "'g db \<Rightarrow> 'g GeoView \<Rightarrow> DataLayer list" where
  "layers_all s self = sort_key dl_uid (layers_join s self)"

text \<open>
  \<^verbatim>\<open>self.layers.add(layer)\<close> inserts an association row unless the view already has
  one for the layer; \<^verbatim>\<open>self.layers.remove(layer)\<close> deletes the rows for the layer.
\<close>

definition add_layer :: "'g GeoView \<Rightarrow> DataLayer \<Rightarrow> 'g GeoView" where
  "add_layer self layer =
     (if dl_uid layer \<in> set (gv_layers self) then self
      else self\<lparr>gv_layers := gv_layers self @ [dl_uid layer]\<rparr>)"

definition remove_layer :: "'g GeoView \<Rightarrow> DataLayer \<Rightarrow> 'g GeoView" where
  "remove_layer self layer =
     self\<lparr>gv_layers := filter (\<lambda>u. u \<noteq> dl_uid layer) (gv_layers self)\<rparr>"

text \<open>
  \<^verbatim>\<open>layer.feature_set.filter(geom__intersects=w)\<close>: the features whose layer is
  \<open>layer\<close> and whose geometry intersects \<open>w\<close>. A feature without geometry (the
  column is nullable) intersects nothing.
\<close>

definition feature_set_intersects ::
    "('g \<Rightarrow> 'g \<Rightarrow> bool) \<Rightarrow> 'g db \<Rightarrow> DataLayer \<Rightarrow> 'g \<Rightarrow> 'g Feature list" where
  "feature_set_intersects I s layer w =
     filter (\<lambda>f. f_layer f = Some (dl_uid layer) \<and>
                 (case f_geom f of None \<Rightarrow> False | Some g \<Rightarrow> I g w))
       (features s)"

text \<open>An element of the result: the dictionary with the keys \<^verbatim>\<open>uid\<close> and \<^verbatim>\<open>features\<close>.\<close>

record layer_entry =
  e_uid :: string
  e_features :: "string list"

text \<open>
  The loop over the layers, with \<^verbatim>\<open>results\<close> as accumulator. The window of a view
  is nullable; the query layer refuses \<^verbatim>\<open>None\<close> as the value of a lookup other than
  equality, so the filter raises \<open>ValueError\<close> at the first visible layer of a view
  without window.
\<close>

fun get_features_loop ::
    "('g \<Rightarrow> 'g \<Rightarrow> bool) \<Rightarrow> 'g db \<Rightarrow> 'g GeoView \<Rightarrow> DataLayer list \<Rightarrow> layer_entry list
       \<Rightarrow> error + layer_entry list" where
  "get_features_loop I s self [] results = Inr results"
| "get_features_loop I s self (layer # rest) results =
     (if has_permissions s layer (gv_token_key self) VIEWER then
        (case gv_geom self of
           None \<Rightarrow> Inl ValueError
         | Some w \<Rightarrow>
             get_features_loop I s self rest
               (results @ [\<lparr>e_uid = dl_uid layer,
                            e_features = map f_uid (feature_set_intersects I s layer w)\<rparr>]))
      else get_features_loop I s self rest results)"

definition get_features ::
    "('g \<Rightarrow> 'g \<Rightarrow> bool) \<Rightarrow> 'g db \<Rightarrow> 'g GeoView \<Rightarrow> error + layer_entry list" where
  "get_features I s self = get_features_loop I s self (layers_all s self) []"

text \<open>
  The constraints of the tables the projection reads: \<^verbatim>\<open>uid\<close> is the primary key of
  layers and of features, and an association row exists once per view and layer.
\<close>

definition layers_ok :: "'g db \<Rightarrow> bool" where
  "layers_ok s \<longleftrightarrow> distinct (map dl_uid (datalayers s))"

definition features_ok :: "'g db \<Rightarrow> bool" where
  "features_ok s \<longleftrightarrow> distinct (map f_uid (features s))"

text \<open>A layer of the store with identifier \<open>u\<close> passes the Viewer check for the key.\<close>

definition viewer_of :: "'g db \<Rightarrow> string option \<Rightarrow> string \<Rightarrow> bool" where
  "viewer_of s token_key u =
     list_ex (\<lambda>l. dl_uid l = u \<and> has_permissions s l token_key VIEWER) (datalayers s)"

text \<open>A feature is owned by layer \<open>u\<close> and its geometry intersects the window \<open>w\<close>.\<close>

definition in_window :: "('g \<Rightarrow> 'g \<Rightarrow> bool) \<Rightarrow> string \<Rightarrow> 'g \<Rightarrow> 'g Feature \<Rightarrow> bool" where
  "in_window I u w f \<longleftrightarrow>
     f_layer f = Some u \<and> (case f_geom f of None \<Rightarrow> False | Some g \<Rightarrow> I g w)"

section \<open>Requests and responses (rapid/views.py)\<close>

text \<open>
  A request carries its query parameters and its form parameters. The body of a response
  is built by \<^verbatim>\<open>json_error\<close> or \<^verbatim>\<open>to_json\<close> of rapid/helpers.py; both are kept as
  constructors.
\<close>

record request =
  req_GET :: "string \<rightharpoonup> string"
  req_POST :: "string \<rightharpoonup> string"

datatype content = json_error string | to_json string

text \<open>\<^verbatim>\<open>request.GET.get('token')\<close> is tested for truth: an empty parameter counts as absent.\<close>

definition get_token_key :: "request \<Rightarrow> string option" where
  "get_token_key request =
     (case req_GET request ''token'' of
        Some k \<Rightarrow> if k \<noteq> [] then Some k
                  else (case req_POST request ''token'' of
                          Some k' \<Rightarrow> if k' \<noteq> [] then Some k' else None
                        | None \<Rightarrow> None)
      | None \<Rightarrow> (case req_POST request ''token'' of
                    Some k' \<Rightarrow> if k' \<noteq> [] then Some k' else None
                  | None \<Rightarrow> None))"

text \<open>
  Modelled from the spec: \<^verbatim>\<open>DataOperator.has_layer_permissions\<close> of rapid/select.py,
  which is not among the sources. The specification's resolver takes the identifier of the
  resource, performs no existence check, and decides from the public flag of the resource
  and the bindings of the credential; an identifier without a layer row has no public flag.
\<close>

definition has_layer_permissions :: "'g db \<Rightarrow> string option \<Rightarrow> string \<Rightarrow> Role \<Rightarrow> bool" where
  "has_layer_permissions s token_key layer_uid role =
     has_permissions s
       (case find (\<lambda>l. dl_uid l = layer_uid) (datalayers s) of
          Some l \<Rightarrow> l
        | None \<Rightarrow> \<lparr>dl_uid = layer_uid, dl_descriptor = [], dl_properties = None,
                    dl_is_public = False\<rparr>)
       token_key role"

subsection \<open>Granting a role on a layer\<close>

text \<open>\<^verbatim>\<open>role.save()\<close> of a new \<^verbatim>\<open>DataLayerRole\<close> inserts one row.\<close>

definition DataLayerRole_save :: "'g db \<Rightarrow> DataLayerRole \<Rightarrow> 'g db" where
  "DataLayerRole_save s role = s\<lparr>datalayerroles := datalayerroles s @ [role]\<rparr>"

text \<open>
  \<^verbatim>\<open>addLayerOwner\<close> constructs a \<^verbatim>\<open>GeoViewRole\<close> with the keyword
  \<^verbatim>\<open>layer_id\<close>. \<^verbatim>\<open>GeoViewRole\<close> declares the fields \<^verbatim>\<open>token\<close>, \<^verbatim>\<open>role\<close> and
  \<^verbatim>\<open>geo_view\<close>; the constructor of a model raises \<open>TypeError\<close> on a keyword that
  names none of its fields, so \<^verbatim>\<open>role.save()\<close> is not reached.
\<close>

definition addLayerOwner ::
    "'g db \<Rightarrow> request \<Rightarrow> string \<Rightarrow> string \<Rightarrow> (error + content) \<times> 'g db" where
  "addLayerOwner s request layer_uid token_uid =
     (let token_key = get_token_key request in
      if has_layer_permissions s token_key layer_uid OWNER then (Inl TypeError, s)
      else (Inr (json_error ''Not permitted to edit layer.''), s))"

definition addLayerEditor ::
    "'g db \<Rightarrow> request \<Rightarrow> string \<Rightarrow> string \<Rightarrow> (error + content) \<times> 'g db" where
  "addLayerEditor s request layer_uid token_uid =
     (let token_key = get_token_key request in
      if has_layer_permissions s token_key layer_uid OWNER then
        (Inr (json_error ''Added access for token.''),
         DataLayerRole_save s
           \<lparr>dlr_token_id = token_uid, dlr_role = EDITOR, dlr_layer_id = layer_uid\<rparr>)
      else (Inr (json_error ''Not permitted to edit layer.''), s))"

definition addLayerViewer ::
    "'g db \<Rightarrow> request \<Rightarrow> string \<Rightarrow> string \<Rightarrow> (error + content) \<times> 'g db" where
  "addLayerViewer s request layer_uid token_uid =
     (let token_key = get_token_key request in
      if has_layer_permissions s token_key layer_uid OWNER then
        (Inr (json_error ''Added access for token.''),
         DataLayerRole_save s
           \<lparr>dlr_token_id = token_uid, dlr_role = VIEWER, dlr_layer_id = layer_uid\<rparr>)
      else (Inr (json_error ''Not permitted to edit layer.''), s))"

text \<open>The grant operation for a role: the view function routed for it.\<close>

fun grant_layer_role ::
    "Role \<Rightarrow> 'g db \<Rightarrow> request \<Rightarrow> string \<Rightarrow> string \<Rightarrow> (error + content) \<times> 'g db" where
  "grant_layer_role OWNER = addLayerOwner"
| "grant_layer_role EDITOR = addLayerEditor"
| "grant_layer_role VIEWER = addLayerViewer"

subsection \<open>Revoking a role on a layer\<close>

text \<open>
  \<^verbatim>\<open>DataLayerRole.objects.filter(layer_id=u, role=r, token_id=t).delete()\<close> removes the
  rows that match all three columns.
\<close>

definition DataLayerRole_delete :: "'g db \<Rightarrow> string \<Rightarrow> Role \<Rightarrow> string \<Rightarrow> 'g db" where
  "DataLayerRole_delete s layer_uid role token_uid =
     s\<lparr>datalayerroles :=
         filter (\<lambda>b. \<not> (dlr_layer_id b = layer_uid \<and> dlr_role b = role \<and> dlr_token_id b = token_uid))
           (datalayerroles s)\<rparr>"

definition removeLayerOwner ::
    "'g db \<Rightarrow> request \<Rightarrow> string \<Rightarrow> string \<Rightarrow> (error + content) \<times> 'g db" where
  "removeLayerOwner s request layer_uid token_uid =
     (let token_key = get_token_key request in
      if has_layer_permissions s token_key layer_uid OWNER then
        (Inr (json_error ''Removed access for token.''),
         DataLayerRole_delete s layer_uid OWNER token_uid)
      else (Inr (json_error ''Not permitted to edit Layer.''), s))"

definition removeLayerEditor ::
    "'g db \<Rightarrow> request \<Rightarrow> string \<Rightarrow> string \<Rightarrow> (error + content) \<times> 'g db" where
  "removeLayerEditor s request layer_uid token_uid =
     (let token_key = get_token_key request in
      if has_layer_permissions s token_key layer_uid OWNER then
        (Inr (json_error ''Removed access for token.''),
         DataLayerRole_delete s layer_uid EDITOR token_uid)
      else (Inr (json_error ''Not permitted to edit Layer.''), s))"

definition removeLayerViewer ::
    "'g db \<Rightarrow> request \<Rightarrow> string \<Rightarrow> string \<Rightarrow> (error + content) \<times> 'g db" where
  "removeLayerViewer s request layer_uid token_uid =
     (let token_key = get_token_key request in
      if has_layer_permissions s token_key layer_uid OWNER then
        (Inr (json_error ''Removed access for token.''),
         DataLayerRole_delete s layer_uid VIEWER token_uid)
      else (Inr (json_error ''Not permitted to edit Layer.''), s))"

text \<open>The revoke operation for a role: the view function routed for it.\<close>

fun revoke_layer_role ::
    "Role \<Rightarrow> 'g db \<Rightarrow> request \<Rightarrow> string \<Rightarrow> string \<Rightarrow> (error + content) \<times> 'g db" where
  "revoke_layer_role OWNER = removeLayerOwner"
| "revoke_layer_role EDITOR = removeLayerEditor"
| "revoke_layer_role VIEWER = removeLayerViewer"

text \<open>A row of the layer role table binds token \<open>t\<close> to role \<open>r\<close> on layer \<open>u\<close>.\<close>

definition bound :: "'g db \<Rightarrow> string \<Rightarrow> string \<Rightarrow> Role \<Rightarrow> bool" where
  "bound s t u r =
     list_ex (\<lambda>b. dlr_token_id b = t \<and> dlr_layer_id b = u \<and> dlr_role b = r) (datalayerroles s)"

subsection \<open>Creating a layer: the POST branch of \<^verbatim>\<open>layers\<close>\<close>

text \<open>
  The body of the request after \<^verbatim>\<open>json.loads\<close>: the three keys the branch looks up,
  each possibly absent. The value of \<^verbatim>\<open>public\<close> is compared with the string
  \<^verbatim>\<open>"False"\<close> and with \<^verbatim>\<open>False\<close>, to which the number zero is equal.
\<close>

datatype json = JNull | JBool bool | JNum int | JStr string









section \<open>The content-addressed feature index\<close>

text \<open>
  Modelled from the spec: \<^verbatim>\<open>DataOperator.create_feature\<close> of rapid/select.py, which
  is not among the sources; the source declares the column \<^verbatim>\<open>hash\<close> of a feature
  \<^verbatim>\<open>unique\<close>. The operation requires Editor on the layer, computes the content hash
  from geometry and properties (the hash capability \<open>H\<close>), fails with
  \<open>DuplicateContent\<close> if a feature with that hash exists anywhere in the store, and
  otherwise inserts a new feature under the layer.
\<close>

definition create_feature ::
    "('g \<Rightarrow> string option \<Rightarrow> string) \<Rightarrow> 'g db \<Rightarrow> string \<Rightarrow> 'g \<Rightarrow> string \<Rightarrow> string option
       \<Rightarrow> string option \<Rightarrow> (error + 'g Feature) \<times> 'g db" where
  "create_feature H s new_uid geometry layer_id properties credential =
     (if \<not> has_layer_permissions s credential layer_id EDITOR then (Inl NotPermitted, s)
      else
        let h = H geometry properties in
        if list_ex (\<lambda>f. f_hash f = Some h) (features s) then (Inl DuplicateContent, s)
        else
          let f = \<lparr>f_uid = new_uid, f_geom = Some geometry, f_properties = properties,
                   f_layer = Some layer_id, f_hash = Some h\<rparr>
          in (Inr f, s\<lparr>features := features s @ [f]\<rparr>))"

text \<open>The uniqueness of the content hash over all features that have one.\<close>

definition hashes_ok :: "'g db \<Rightarrow> bool" where
  "hashes_ok s \<longleftrightarrow> distinct (List.map_filter f_hash (features s))"

section \<open>Example store\<close>

text \<open>
  The scenario of the specification, with axis-parallel boxes
  \<open>(xmin, ymin, xmax, ymax)\<close> as geometries: token \<open>t1\<close> owns the private layer
  \<open>L1\<close>, which holds a feature at the origin and one at \<open>(100, 100)\<close>; the view
  \<open>V\<close> has the square around the origin as window and the layers \<open>L1\<close> and
  \<open>L2\<close>; layer \<open>P\<close> is public.
\<close>

type_synonym box = "int \<times> int \<times> int \<times> int"

fun box_intersects :: "box \<Rightarrow> box \<Rightarrow> bool" where
  "box_intersects (a, b, c, d) (a', b', c', d') \<longleftrightarrow> a \<le> c' \<and> a' \<le> c \<and> b \<le> d' \<and> b' \<le> d"

definition ex_t1 :: ApiToken where
  "ex_t1 = \<lparr>tok_uid = ''t1'', tok_key = ''k1'', tok_descriptor = ''a''\<rparr>"

definition ex_t2 :: ApiToken where
  "ex_t2 = \<lparr>tok_uid = ''t2'', tok_key = ''k2'', tok_descriptor = ''b''\<rparr>"

definition ex_L1 :: DataLayer where
  "ex_L1 = \<lparr>dl_uid = ''L1'', dl_descriptor = ''a'', dl_properties = None, dl_is_public = False\<rparr>"

definition ex_L2 :: DataLayer where
  "ex_L2 = \<lparr>dl_uid = ''L2'', dl_descriptor = ''b'', dl_properties = None, dl_is_public = False\<rparr>"

definition ex_P :: DataLayer where
  "ex_P = \<lparr>dl_uid = ''P'', dl_descriptor = ''c'', dl_properties = None, dl_is_public = True\<rparr>"

definition ex_V :: "box GeoView" where
  "ex_V = \<lparr>gv_uid = ''V'', gv_descriptor = ''v'', gv_geom = Some (-1, -1, 1, 1),
           gv_properties = None, gv_layers = [''L1'', ''L2''], gv_is_public = False,
           gv_token_key = Some ''k1''\<rparr>"

definition ex_db :: "box db" where
  "ex_db =
     \<lparr>apitokens = [ex_t1, ex_t2],
      datalayers = [ex_L1, ex_L2, ex_P],
      features =
        [\<lparr>f_uid = ''F1'', f_geom = Some (0, 0, 0, 0), f_properties = None,
          f_layer = Some ''L1'', f_hash = Some ''h1''\<rparr>,
         \<lparr>f_uid = ''F2'', f_geom = Some (100, 100, 100, 100), f_properties = None,
          f_layer = Some ''L1'', f_hash = Some ''h2''\<rparr>],
      geoviews = [ex_V],
      geoviewroles = [],
      datalayerroles = [\<lparr>dlr_token_id = ''t1'', dlr_role = OWNER, dlr_layer_id = ''L1''\<rparr>]\<rparr>"

definition ex_req :: "string \<Rightarrow> request" where
  "ex_req k = \<lparr>req_GET = [''token'' \<mapsto> k], req_POST = Map.empty\<rparr>"








text \<open>The example store with further bindings on \<open>L1\<close>.\<close>

definition ex_shared :: "box db" where
  "ex_shared =
     ex_db\<lparr>datalayerroles :=
       [\<lparr>dlr_token_id = ''t1'', dlr_role = OWNER, dlr_layer_id = ''L1''\<rparr>,
        \<lparr>dlr_token_id = ''t1'', dlr_role = VIEWER, dlr_layer_id = ''L1''\<rparr>,
        \<lparr>dlr_token_id = ''t2'', dlr_role = VIEWER, dlr_layer_id = ''L1''\<rparr>]\<rparr>"

text \<open>A hash capability for the examples: the corner of the box and the properties.\<close>

fun ex_hash :: "box \<Rightarrow> string option \<Rightarrow> string" where
  "ex_hash (a, b, c, d) props =
     (if a = 0 then ''o'' else ''x'') @ (case props of None \<Rightarrow> [] | Some p \<Rightarrow> p)"


section \<open>Properties of the resolver\<close>

lemma max_role_None: "max_role rs = None \<longleftrightarrow> rs = []"
  by (cases rs) (auto split: option.splits)

lemma max_role_ge:
  "(case max_role rs of None \<Rightarrow> False | Some m \<Rightarrow> role_value r \<le> role_value m)
     \<longleftrightarrow> (\<exists>q \<in> set rs. role_value r \<le> role_value q)"
proof (induction rs)
  case Nil
  show ?case by simp
next
  case (Cons a rs)
  show ?case
  proof (cases "max_role rs")
    case None
    then have "rs = []" by (simp add: max_role_None)
    with None show ?thesis by simp
  next
    case (Some m)
    with Cons show ?thesis by (auto split: if_splits)
  qed
qed

lemma token_has_key_iff:
  assumes "tokens_ok s" and "c \<in> set (apitokens s)"
  shows "token_has_key s tid (tok_key c) \<longleftrightarrow> tid = tok_uid c"
proof
  assume "token_has_key s tid (tok_key c)"
  then obtain t where t: "t \<in> set (apitokens s)" "tok_uid t = tid" "tok_key t = tok_key c"
    by (auto simp: token_has_key_def list_ex_iff)
  from assms have "inj_on tok_key (set (apitokens s))"
    by (simp add: tokens_ok_def distinct_map)
  with t assms(2) have "t = c" by (auto dest: inj_onD)
  with t show "tid = tok_uid c" by simp
next
  assume "tid = tok_uid c"
  with assms(2) show "token_has_key s tid (tok_key c)"
    by (auto simp: token_has_key_def list_ex_iff)
qed

lemma filter_key_layer_role_nonempty:
  assumes "tokens_ok s" and "c \<in> set (apitokens s)"
  shows "filter_key_layer_role s (tok_key c) (dl_uid l) q \<noteq> []
           \<longleftrightarrow> q \<in> dlr_role ` set (bindings_of s c l)"
proof -
  have "filter_key_layer_role s (tok_key c) (dl_uid l) q \<noteq> []
          \<longleftrightarrow> (\<exists>b \<in> set (datalayerroles s).
                 token_has_key s (dlr_token_id b) (tok_key c) \<and> dlr_layer_id b = dl_uid l
                 \<and> dlr_role b = q)"
    by (auto simp: filter_key_layer_role_def filter_empty_conv)
  also have "\<dots> \<longleftrightarrow> (\<exists>b \<in> set (datalayerroles s).
                 dlr_token_id b = tok_uid c \<and> dlr_layer_id b = dl_uid l \<and> dlr_role b = q)"
    using assms by (simp add: token_has_key_iff)
  also have "\<dots> \<longleftrightarrow> q \<in> dlr_role ` set (bindings_of s c l)"
    by (auto simp: bindings_of_def)
  finally show ?thesis .
qed

lemma role_value_le_OWNER: "role_value OWNER \<le> role_value q \<longleftrightarrow> q = OWNER"
  by (cases q) simp_all

lemma role_value_le_EDITOR: "role_value EDITOR \<le> role_value q \<longleftrightarrow> q = OWNER \<or> q = EDITOR"
  by (cases q) simp_all

lemma role_value_le_VIEWER:
  "role_value VIEWER \<le> role_value q \<longleftrightarrow> q = OWNER \<or> q = EDITOR \<or> q = VIEWER"
  by (cases q) simp_all

lemma exists_ge_cases:
  "(\<exists>q \<in> R. role_value r \<le> role_value q) \<longleftrightarrow>
     (case r of OWNER \<Rightarrow> OWNER \<in> R
              | EDITOR \<Rightarrow> OWNER \<in> R \<or> EDITOR \<in> R
              | VIEWER \<Rightarrow> OWNER \<in> R \<or> EDITOR \<in> R \<or> VIEWER \<in> R)"
proof (cases r)
  case VIEWER
  then show ?thesis unfolding VIEWER role_value_le_VIEWER by auto
next
  case EDITOR
  then show ?thesis unfolding EDITOR role_value_le_EDITOR by auto
next
  case OWNER
  then show ?thesis unfolding OWNER role_value_le_OWNER by auto
qed

lemma has_permissions_private:
  assumes "tokens_ok s" and "c \<in> set (apitokens s)" and "tok_key c \<noteq> []"
    and "\<not> dl_is_public l"
  shows "has_permissions s l (Some (tok_key c)) r = spec_has_permission s c l r"
proof -
  let ?R = "dlr_role ` set (bindings_of s c l)"
  have ne: "\<And>q. filter_key_layer_role s (tok_key c) (dl_uid l) q = [] \<longleftrightarrow> q \<notin> ?R"
    using filter_key_layer_role_nonempty [OF assms(1,2)] by blast
  have code: "has_permissions s l (Some (tok_key c)) r \<longleftrightarrow>
      (case r of OWNER \<Rightarrow> OWNER \<in> ?R
               | EDITOR \<Rightarrow> OWNER \<in> ?R \<or> EDITOR \<in> ?R
               | VIEWER \<Rightarrow> OWNER \<in> ?R \<or> EDITOR \<in> ?R \<or> VIEWER \<in> ?R)"
    using assms(3,4) by (cases r) (auto simp: has_permissions_def Let_def ne)
  have spec: "spec_has_permission s c l r \<longleftrightarrow> (\<exists>q \<in> ?R. role_value r \<le> role_value q)"
    unfolding spec_has_permission_def max_role_ge by simp
  from code spec show ?thesis by (simp only: exists_ge_cases)
qed

text \<open>
  C5. On a layer that is not public, for a credential of the token store, the resolver
  answers true exactly when the maximum role among the credential's bindings on the layer
  (no binding meaning no role) is at least the required role under
  \<open>Viewer < Editor < Owner\<close>. In particular a credential with an Owner binding passes
  the Editor and Viewer checks, and one with an Editor binding passes the Viewer check.
  A credential's key is the digest \<^verbatim>\<open>generate_secure_key\<close> produces, which is not
  empty.
\<close>

theorem has_permissions_max_role:
  assumes "tokens_ok s" and "c \<in> set (apitokens s)" and "tok_key c \<noteq> []"
    and "\<not> dl_is_public l"
  shows "(has_permissions s l (Some (tok_key c)) r \<longleftrightarrow> spec_has_permission s c l r)
       \<and> (bound s (tok_uid c) (dl_uid l) OWNER \<longrightarrow>
            has_permissions s l (Some (tok_key c)) EDITOR
          \<and> has_permissions s l (Some (tok_key c)) VIEWER)
       \<and> (bound s (tok_uid c) (dl_uid l) EDITOR \<longrightarrow>
            has_permissions s l (Some (tok_key c)) VIEWER)"
proof -
  have eq: "\<And>q. has_permissions s l (Some (tok_key c)) q \<longleftrightarrow>
      (\<exists>x \<in> dlr_role ` set (bindings_of s c l). role_value q \<le> role_value x)"
    using has_permissions_private [OF assms]
    by (simp add: spec_has_permission_def max_role_ge)
  have b: "\<And>q. bound s (tok_uid c) (dl_uid l) q \<longleftrightarrow> q \<in> dlr_role ` set (bindings_of s c l)"
    by (auto simp: bound_def bindings_of_def list_ex_iff)
  have "has_permissions s l (Some (tok_key c)) r \<longleftrightarrow> spec_has_permission s c l r"
    using assms by (rule has_permissions_private)
  moreover have "bound s (tok_uid c) (dl_uid l) OWNER \<longrightarrow>
      has_permissions s l (Some (tok_key c)) EDITOR \<and> has_permissions s l (Some (tok_key c)) VIEWER"
    unfolding eq b exists_ge_cases by simp
  moreover have "bound s (tok_uid c) (dl_uid l) EDITOR \<longrightarrow>
      has_permissions s l (Some (tok_key c)) VIEWER"
    unfolding eq b exists_ge_cases by simp
  ultimately show ?thesis by blast
qed

lemma ex_tokens_ok: "tokens_ok ex_db"
  by (simp add: tokens_ok_def ex_db_def ex_t1_def ex_t2_def)

lemma ex_bound_owner: "bound ex_db (tok_uid ex_t1) (dl_uid ex_L1) OWNER"
  by (simp add: bound_def ex_db_def ex_t1_def ex_L1_def)

theorem has_permissions_max_role_witness:
  "tokens_ok ex_db \<and> ex_t1 \<in> set (apitokens ex_db) \<and> tok_key ex_t1 \<noteq> []
     \<and> \<not> dl_is_public ex_L1
     \<and> bound ex_db (tok_uid ex_t1) (dl_uid ex_L1) OWNER
     \<and> spec_has_permission ex_db ex_t1 ex_L1 EDITOR
     \<and> has_permissions ex_db ex_L1 (Some (tok_key ex_t1)) EDITOR
     \<and> has_permissions ex_db ex_L1 (Some (tok_key ex_t1)) VIEWER"
proof -
  have h1: "ex_t1 \<in> set (apitokens ex_db)" by (simp add: ex_db_def)
  have h2: "tok_key ex_t1 \<noteq> []" by (simp add: ex_t1_def)
  have h3: "\<not> dl_is_public ex_L1" by (simp add: ex_L1_def)
  from has_permissions_max_role [OF ex_tokens_ok h1 h2 h3, of EDITOR] ex_bound_owner
    ex_tokens_ok h1 h2 h3
  show ?thesis by blast
qed

text \<open>
  C6. The public flag grants the Viewer capability and nothing more: on a public layer
  the Viewer check passes for any key and for none; the Editor and Owner checks fail for a
  credential without bindings on the layer, and every check above Viewer fails when no
  credential is given.
\<close>

theorem has_permissions_public:
  assumes "dl_is_public l"
  shows "has_permissions s l token_key VIEWER
       \<and> (tokens_ok s \<and> c \<in> set (apitokens s) \<and> bindings_of s c l = [] \<longrightarrow>
            \<not> has_permissions s l (Some (tok_key c)) EDITOR
          \<and> \<not> has_permissions s l (Some (tok_key c)) OWNER)
       \<and> (r \<noteq> VIEWER \<longrightarrow> \<not> has_permissions s l None r)"
proof -
  have "has_permissions s l token_key VIEWER"
    using assms by (simp add: has_permissions_def)
  moreover have "\<not> has_permissions s l (Some (tok_key c)) q"
    if "tokens_ok s" "c \<in> set (apitokens s)" "bindings_of s c l = []" "q \<noteq> VIEWER" for q
  proof -
    have "filter_key_layer_role s (tok_key c) (dl_uid l) q' = []" for q'
      using filter_key_layer_role_nonempty [OF that(1,2), of l q'] that(3) by simp
    then show ?thesis using that(4) by (cases q) (simp_all add: has_permissions_def)
  qed
  moreover have "r \<noteq> VIEWER \<longrightarrow> \<not> has_permissions s l None r"
    by (simp add: has_permissions_def)
  ultimately show ?thesis by blast
qed

theorem has_permissions_public_witness:
  "dl_is_public ex_P
     \<and> has_permissions ex_db ex_P None VIEWER
     \<and> tokens_ok ex_db \<and> ex_t2 \<in> set (apitokens ex_db) \<and> bindings_of ex_db ex_t2 ex_P = []
     \<and> has_permissions ex_db ex_P (Some (tok_key ex_t2)) VIEWER
     \<and> \<not> has_permissions ex_db ex_P (Some (tok_key ex_t2)) EDITOR
     \<and> \<not> has_permissions ex_db ex_P (Some (tok_key ex_t2)) OWNER
     \<and> \<not> has_permissions ex_db ex_P None EDITOR"
proof -
  have h: "dl_is_public ex_P" by (simp add: ex_P_def)
  have h1: "ex_t2 \<in> set (apitokens ex_db)" by (simp add: ex_db_def)
  have h2: "bindings_of ex_db ex_t2 ex_P = []"
    by (simp add: bindings_of_def ex_db_def ex_t2_def ex_P_def)
  from has_permissions_public [OF h, of ex_db None ex_t2 EDITOR]
    has_permissions_public [OF h, of ex_db "Some (tok_key ex_t2)" ex_t2 EDITOR]
    ex_tokens_ok h h1 h2
  show ?thesis by simp
qed

section \<open>Properties of the projection\<close>

lemma get_features_loop_window:
  "gv_geom self = Some w \<Longrightarrow>
   get_features_loop I s self ls acc =
     Inr (acc @ map (\<lambda>l. \<lparr>e_uid = dl_uid l,
                           e_features = map f_uid (feature_set_intersects I s l w)\<rparr>)
                 (filter (\<lambda>l. has_permissions s l (gv_token_key self) VIEWER) ls))"
  by (induction ls arbitrary: acc) simp_all

lemma get_features_window:
  "gv_geom self = Some w \<Longrightarrow>
   get_features I s self =
     Inr (map (\<lambda>l. \<lparr>e_uid = dl_uid l,
                     e_features = map f_uid (feature_set_intersects I s l w)\<rparr>)
           (filter (\<lambda>l. has_permissions s l (gv_token_key self) VIEWER) (layers_all s self)))"
  by (simp add: get_features_def get_features_loop_window)

lemma get_features_loop_no_window:
  "gv_geom self = None \<Longrightarrow> get_features_loop I s self ls acc = Inr es \<Longrightarrow> es = acc"
  by (induction ls arbitrary: acc) (auto split: if_splits)

lemma get_features_no_window:
  "gv_geom self = None \<Longrightarrow> get_features I s self = Inr es \<Longrightarrow> es = []"
  by (auto simp: get_features_def dest: get_features_loop_no_window)

lemma feature_ids_iff:
  "u \<in> set (map f_uid (feature_set_intersects I s l w)) \<longleftrightarrow>
     (\<exists>f \<in> set (features s). f_uid f = u \<and> in_window I (dl_uid l) w f)"
  by (auto simp: feature_set_intersects_def in_window_def)

lemma filter_uid_rows:
  "distinct (map dl_uid ds) \<Longrightarrow>
   map dl_uid (filter (\<lambda>l. dl_uid l = u \<and> P l) ds) =
     (if list_ex (\<lambda>l. dl_uid l = u \<and> P l) ds then [u] else [])"
proof (induction ds)
  case Nil
  show ?case by simp
next
  case (Cons d ds)
  show ?case
  proof (cases "dl_uid d = u")
    case True
    from Cons.prems have "dl_uid d \<notin> dl_uid ` set ds" by simp
    with True have no: "\<forall>l \<in> set ds. dl_uid l \<noteq> u" by blast
    then have "filter (\<lambda>l. dl_uid l = u \<and> P l) ds = []"
      by (simp add: filter_empty_conv)
    moreover from no have "\<not> list_ex (\<lambda>l. dl_uid l = u \<and> P l) ds"
      by (simp add: list_ex_iff)
    ultimately show ?thesis using True by simp
  next
    case False
    with Cons show ?thesis by simp
  qed
qed

lemma layers_join_uids:
  assumes "layers_ok s"
  shows "map dl_uid (filter P (layers_join s v)) =
           filter (\<lambda>u. list_ex (\<lambda>l. dl_uid l = u \<and> P l) (datalayers s)) (gv_layers v)"
proof -
  have d: "distinct (map dl_uid (datalayers s))" using assms by (simp add: layers_ok_def)
  have "map dl_uid (filter P (concat (map (\<lambda>u. filter (\<lambda>l. dl_uid l = u) (datalayers s)) us))) =
          filter (\<lambda>u. list_ex (\<lambda>l. dl_uid l = u \<and> P l) (datalayers s)) us" for us
  proof (induction us)
    case Nil
    show ?case by simp
  next
    case (Cons a us)
    have "map dl_uid (filter P (filter (\<lambda>l. dl_uid l = a) (datalayers s))) =
            (if list_ex (\<lambda>l. dl_uid l = a \<and> P l) (datalayers s) then [a] else [])"
      using filter_uid_rows [OF d, of a P] by (simp add: conj_commute)
    with Cons show ?case by simp
  qed
  then show ?thesis by (simp add: layers_join_def)
qed

lemma map_insort_key: "map f (insort_key f a ys) = insort (f a) (map f ys)"
  by (induction ys) simp_all

lemma map_sort_key: "map f (sort_key f xs) = sort (map f xs)"
  by (induction xs) (simp_all add: map_insort_key)

lemma layers_all_uids:
  assumes "layers_ok s"
  shows "map dl_uid (filter P (layers_all s v)) =
           sort (filter (\<lambda>u. list_ex (\<lambda>l. dl_uid l = u \<and> P l) (datalayers s)) (gv_layers v))"
proof -
  have "map dl_uid (filter P (layers_all s v)) =
          map dl_uid (sort_key dl_uid (filter P (layers_join s v)))"
    by (simp only: layers_all_def filter_sort)
  also have "\<dots> = sort (map dl_uid (filter P (layers_join s v)))"
    by (rule map_sort_key)
  finally show ?thesis by (simp only: layers_join_uids [OF assms])
qed

lemma layers_all_member:
  "l \<in> set (layers_all s v) \<longleftrightarrow> l \<in> set (datalayers s) \<and> dl_uid l \<in> set (gv_layers v)"
  by (auto simp: layers_all_def layers_join_def)

lemma ex_get_features:
  "get_features box_intersects ex_db ex_V =
     Inr [\<lparr>e_uid = ''L1'', e_features = [''F1'']\<rparr>]"
  by (simp add: get_features_def layers_all_def layers_join_def ex_db_def ex_V_def ex_L1_def
      ex_L2_def ex_P_def has_permissions_def filter_key_layer_role_def token_has_key_def
      ex_t1_def ex_t2_def feature_set_intersects_def)

lemma ex_layers_ok: "layers_ok ex_db"
  by (simp add: layers_ok_def ex_db_def ex_L1_def ex_L2_def ex_P_def)

lemma ex_window: "gv_geom ex_V = Some (-1, -1, 1, 1)"
  by (simp add: ex_V_def)

lemma ex_viewer_L1: "has_permissions ex_db ex_L1 (gv_token_key ex_V) VIEWER"
  by (simp add: has_permissions_def filter_key_layer_role_def token_has_key_def
      ex_db_def ex_V_def ex_L1_def ex_t1_def ex_t2_def)

lemma add_layer_distinct: "distinct (gv_layers v) \<Longrightarrow> distinct (gv_layers (add_layer v l))"
  by (simp add: add_layer_def)

lemma remove_layer_distinct: "distinct (gv_layers v) \<Longrightarrow> distinct (gv_layers (remove_layer v l))"
  by (simp add: remove_layer_def)

lemma add_layer_order:
  "dl_uid l \<notin> set (gv_layers v) \<Longrightarrow> gv_layers (add_layer v l) = gv_layers v @ [dl_uid l]"
  by (simp add: add_layer_def)

text \<open>
  C3. For a view with window \<open>w\<close> and a layer associated with it that passes the Viewer
  check for the view's key, the projection returns, and an entry for the layer is in it;
  every entry for the layer lists exactly the identifiers of the features that are owned by
  the layer and whose geometry intersects \<open>w\<close>. An entry holds identifiers only: its
  type has no geometry and no properties.
\<close>

theorem get_features_lists_intersecting:
  assumes "gv_geom v = Some w" and "l \<in> set (layers_all s v)"
    and "has_permissions s l (gv_token_key v) VIEWER"
  shows "\<exists>es. get_features I s v = Inr es
           \<and> (\<exists>e \<in> set es. e_uid e = dl_uid l)
           \<and> (\<forall>e \<in> set es. e_uid e = dl_uid l \<longrightarrow>
                (\<forall>u. u \<in> set (e_features e) \<longleftrightarrow>
                   (\<exists>f \<in> set (features s). f_uid f = u \<and> in_window I (dl_uid l) w f)))"
proof -
  let ?entry = "\<lambda>l. \<lparr>e_uid = dl_uid l, e_features = map f_uid (feature_set_intersects I s l w)\<rparr>"
  let ?ls = "filter (\<lambda>l. has_permissions s l (gv_token_key v) VIEWER) (layers_all s v)"
  have eq: "get_features I s v = Inr (map ?entry ?ls)"
    using assms(1) by (rule get_features_window)
  have "l \<in> set ?ls" using assms(2,3) by simp
  then have "?entry l \<in> set (map ?entry ?ls)" by auto
  moreover have "e_uid (?entry l) = dl_uid l" by simp
  ultimately have ex: "\<exists>e \<in> set (map ?entry ?ls). e_uid e = dl_uid l" by blast
  have all: "\<forall>e \<in> set (map ?entry ?ls). e_uid e = dl_uid l \<longrightarrow>
      (\<forall>u. u \<in> set (e_features e) \<longleftrightarrow>
         (\<exists>f \<in> set (features s). f_uid f = u \<and> in_window I (dl_uid l) w f))"
  proof (intro ballI impI allI)
    fix e u
    assume "e \<in> set (map ?entry ?ls)" and uid: "e_uid e = dl_uid l"
    then obtain l' where e: "e = ?entry l'" by auto
    with uid have "dl_uid l' = dl_uid l" by simp
    with e show "u \<in> set (e_features e) \<longleftrightarrow>
        (\<exists>f \<in> set (features s). f_uid f = u \<and> in_window I (dl_uid l) w f)"
      using feature_ids_iff [of u I s l' w] by simp
  qed
  from eq ex all show ?thesis by blast
qed

theorem get_features_lists_intersecting_witness:
  "gv_geom ex_V = Some (-1, -1, 1, 1) \<and> ex_L1 \<in> set (layers_all ex_db ex_V)
     \<and> has_permissions ex_db ex_L1 (gv_token_key ex_V) VIEWER
     \<and> get_features box_intersects ex_db ex_V = Inr [\<lparr>e_uid = ''L1'', e_features = [''F1'']\<rparr>]
     \<and> (\<exists>es. get_features box_intersects ex_db ex_V = Inr es
           \<and> (\<exists>e \<in> set es. e_uid e = dl_uid ex_L1)
           \<and> (\<forall>e \<in> set es. e_uid e = dl_uid ex_L1 \<longrightarrow>
                (\<forall>u. u \<in> set (e_features e) \<longleftrightarrow>
                   (\<exists>f \<in> set (features ex_db).
                      f_uid f = u \<and> in_window box_intersects (dl_uid ex_L1) (-1, -1, 1, 1) f))))"
proof -
  have h: "ex_L1 \<in> set (layers_all ex_db ex_V)"
    by (simp add: layers_all_member ex_db_def ex_V_def ex_L1_def)
  note t = get_features_lists_intersecting [OF ex_window h ex_viewer_L1, of box_intersects]
  show ?thesis by (intro conjI ex_window h ex_viewer_L1 ex_get_features t)
qed









text \<open>
  C9. The result of the projection is well formed: every entry names a layer associated
  with the view, no layer has two entries, and every identifier listed in an entry is the
  identifier of a feature of the store whose owning layer is the entry's layer.
\<close>

theorem get_features_well_formed:
  assumes "layers_ok s" and "features_ok s" and "distinct (gv_layers v)"
    and "get_features I s v = Inr es"
  shows "set (map e_uid es) \<subseteq> set (gv_layers v)
       \<and> distinct (map e_uid es)
       \<and> (\<forall>e \<in> set es. \<forall>u \<in> set (e_features e).
            (\<exists>f \<in> set (features s). f_uid f = u \<and> f_layer f = Some (e_uid e))
          \<and> (\<forall>f \<in> set (features s). f_uid f = u \<longrightarrow> f_layer f = Some (e_uid e)))"
proof (cases "gv_geom v")
  case None
  from get_features_no_window [OF None assms(4)] have "es = []" .
  then show ?thesis by simp
next
  case (Some w)
  let ?entry = "\<lambda>l. \<lparr>e_uid = dl_uid l, e_features = map f_uid (feature_set_intersects I s l w)\<rparr>"
  let ?P = "\<lambda>l. has_permissions s l (gv_token_key v) VIEWER"
  from Some assms(4) have es: "es = map ?entry (filter ?P (layers_all s v))"
    by (simp add: get_features_window)
  have "map e_uid es = map dl_uid (filter ?P (layers_all s v))"
    by (simp add: es comp_def)
  then have uids: "map e_uid es = sort (filter (viewer_of s (gv_token_key v)) (gv_layers v))"
    unfolding layers_all_uids [OF assms(1)] viewer_of_def .
  have sub: "set (map e_uid es) \<subseteq> set (gv_layers v)" unfolding uids by auto
  have dist: "distinct (map e_uid es)" unfolding uids using assms(3) by simp
  have inj: "inj_on f_uid (set (features s))"
    using assms(2) by (simp add: features_ok_def distinct_map)
  have own: "\<forall>e \<in> set es. \<forall>u \<in> set (e_features e).
      (\<exists>f \<in> set (features s). f_uid f = u \<and> f_layer f = Some (e_uid e))
    \<and> (\<forall>f \<in> set (features s). f_uid f = u \<longrightarrow> f_layer f = Some (e_uid e))"
  proof (intro ballI)
    fix e u
    assume "e \<in> set es" and u: "u \<in> set (e_features e)"
    then obtain l where e: "e = ?entry l" unfolding es by auto
    from u e obtain f where f: "f \<in> set (features s)" "f_uid f = u" "f_layer f = Some (dl_uid l)"
      by (auto simp: feature_set_intersects_def)
    have "f_layer f' = Some (e_uid e)" if "f' \<in> set (features s)" "f_uid f' = u" for f'
    proof -
      from inj f(1,2) that have "f' = f" by (auto dest: inj_onD)
      with f(3) e show ?thesis by simp
    qed
    with f e show "(\<exists>f \<in> set (features s). f_uid f = u \<and> f_layer f = Some (e_uid e))
        \<and> (\<forall>f \<in> set (features s). f_uid f = u \<longrightarrow> f_layer f = Some (e_uid e))"
      by auto
  qed
  from sub dist own show ?thesis by blast
qed

theorem get_features_well_formed_witness:
  "layers_ok ex_db \<and> features_ok ex_db \<and> distinct (gv_layers ex_V)
     \<and> get_features box_intersects ex_db ex_V = Inr [\<lparr>e_uid = ''L1'', e_features = [''F1'']\<rparr>]
     \<and> set (map e_uid [\<lparr>e_uid = ''L1'', e_features = [''F1'']\<rparr>]) \<subseteq> set (gv_layers ex_V)
     \<and> (\<exists>f \<in> set (features ex_db). f_uid f = ''F1'' \<and> f_layer f = Some ''L1'')"
proof -
  have h1: "features_ok ex_db" by (simp add: features_ok_def ex_db_def)
  have h2: "distinct (gv_layers ex_V)" by (simp add: ex_V_def)
  note t = get_features_well_formed [OF ex_layers_ok h1 h2 ex_get_features]
  from t have sub: "set (map e_uid [\<lparr>e_uid = ''L1'', e_features = [''F1'']\<rparr>]) \<subseteq> set (gv_layers ex_V)"
    by (rule conjunct1)
  from t have "\<exists>f \<in> set (features ex_db). f_uid f = ''F1'' \<and> f_layer f = Some ''L1''"
    by simp
  then show ?thesis by (intro conjI ex_layers_ok h1 h2 ex_get_features sub)
qed

section \<open>Properties of granting and revoking\<close>

lemma snd_revoke:
  "snd (revoke_layer_role r s request L T) =
     (if has_layer_permissions s (get_token_key request) L OWNER
      then DataLayerRole_delete s L r T else s)"
  by (cases r) (simp_all add: removeLayerOwner_def removeLayerEditor_def removeLayerViewer_def)

lemma fst_revoke:
  "fst (revoke_layer_role r s request L T) =
     (if has_layer_permissions s (get_token_key request) L OWNER
      then Inr (json_error ''Removed access for token.'')
      else Inr (json_error ''Not permitted to edit Layer.''))"
  by (cases r) (simp_all add: removeLayerOwner_def removeLayerEditor_def removeLayerViewer_def)

lemma delete_absent:
  assumes "\<not> bound s T L r"
  shows "DataLayerRole_delete s L r T = s"
proof -
  from assms have "filter (\<lambda>b. \<not> (dlr_layer_id b = L \<and> dlr_role b = r \<and> dlr_token_id b = T))
      (datalayerroles s) = datalayerroles s"
    by (auto simp: bound_def list_ex_iff filter_id_conv)
  then show ?thesis by (simp add: DataLayerRole_delete_def)
qed

lemma bound_after_delete: "\<not> bound (DataLayerRole_delete s L r T) T L r"
  by (auto simp: bound_def list_ex_iff DataLayerRole_delete_def)

lemma delete_twice:
  "DataLayerRole_delete (DataLayerRole_delete s L r T) L r T = DataLayerRole_delete s L r T"
  using bound_after_delete by (rule delete_absent)

lemma delete_frame:
  "datalayerroles (DataLayerRole_delete s L r T) =
     filter (\<lambda>b. \<not> (dlr_token_id b = T \<and> dlr_layer_id b = L \<and> dlr_role b = r)) (datalayerroles s)
   \<and> geoviewroles (DataLayerRole_delete s L r T) = geoviewroles s
   \<and> apitokens (DataLayerRole_delete s L r T) = apitokens s
   \<and> datalayers (DataLayerRole_delete s L r T) = datalayers s
   \<and> features (DataLayerRole_delete s L r T) = features s
   \<and> geoviews (DataLayerRole_delete s L r T) = geoviews s"
  by (auto simp: DataLayerRole_delete_def intro: filter_cong)

lemma bound_delete_other:
  "bound s t u q \<Longrightarrow> q \<noteq> r \<Longrightarrow> bound (DataLayerRole_delete s L r T) t u q"
  by (auto simp: bound_def list_ex_iff DataLayerRole_delete_def)

lemma tokens_ok_delete: "tokens_ok (DataLayerRole_delete s L r T) = tokens_ok s"
  by (simp add: tokens_ok_def DataLayerRole_delete_def)

lemma bound_iff_bindings:
  "bound s (tok_uid c) (dl_uid l) q \<longleftrightarrow> q \<in> dlr_role ` set (bindings_of s c l)"
  by (force simp: bound_def bindings_of_def list_ex_iff)

lemma owner_passes_viewer:
  assumes "tokens_ok s" and "c \<in> set (apitokens s)" and "tok_key c \<noteq> []"
    and "bound s (tok_uid c) (dl_uid l) OWNER"
  shows "has_permissions s l (Some (tok_key c)) VIEWER"
proof -
  from assms(4) have "OWNER \<in> dlr_role ` set (bindings_of s c l)"
    by (simp only: bound_iff_bindings)
  then have "filter_key_layer_role s (tok_key c) (dl_uid l) OWNER \<noteq> []"
    using filter_key_layer_role_nonempty [OF assms(1,2)] by simp
  with assms(3) show ?thesis by (simp add: has_permissions_def)
qed

lemma bound_save:
  "bound (DataLayerRole_save s b) t u r \<longleftrightarrow>
     bound s t u r \<or> (dlr_token_id b = t \<and> dlr_layer_id b = u \<and> dlr_role b = r)"
  by (auto simp: bound_def DataLayerRole_save_def list_ex_iff)

lemma bound_passes:
  assumes "tokens_ok s" and "c \<in> set (apitokens s)" and "tok_key c \<noteq> []"
    and "bound s (tok_uid c) (dl_uid l) r"
  shows "has_permissions s l (Some (tok_key c)) r"
proof -
  from assms(4) have "r \<in> dlr_role ` set (bindings_of s c l)"
    by (simp only: bound_iff_bindings)
  then have "filter_key_layer_role s (tok_key c) (dl_uid l) r \<noteq> []"
    using filter_key_layer_role_nonempty [OF assms(1,2)] by simp
  with assms(3) show ?thesis by (cases r) (simp_all add: has_permissions_def)
qed

lemma ex_key: "get_token_key (ex_req ''k1'') = Some ''k1''"
  by (simp add: get_token_key_def ex_req_def)

lemma ex_caller_owner: "has_layer_permissions ex_db (get_token_key (ex_req ''k1'')) ''L1'' OWNER"
  by (simp add: ex_key has_layer_permissions_def has_permissions_def filter_key_layer_role_def
      token_has_key_def ex_db_def ex_L1_def ex_L2_def ex_P_def ex_t1_def ex_t2_def)

text \<open>
  C8. Revocation is idempotent. When the caller passes the Owner check on the layer and
  the role table has no row binding the token to the role on the layer, the revoke
  operation reports success and returns the store as it was, so that every later answer
  of the resolver is the same. Revoking twice leaves the store that revoking once
  leaves.
\<close>

theorem revoke_idempotent:
  assumes "has_layer_permissions s (get_token_key request) L OWNER" and "\<not> bound s T L r"
  shows "revoke_layer_role r s request L T = (Inr (json_error ''Removed access for token.''), s)
       \<and> (\<forall>l k q. has_permissions (snd (revoke_layer_role r s request L T)) l k q
                     = has_permissions s l k q)
       \<and> snd (revoke_layer_role r (snd (revoke_layer_role r s' request' L T)) request' L T)
           = snd (revoke_layer_role r s' request' L T)"
proof -
  have one: "revoke_layer_role r s request L T = (Inr (json_error ''Removed access for token.''), s)"
    using assms by (simp add: prod_eq_iff fst_revoke snd_revoke delete_absent)
  have twice: "snd (revoke_layer_role r (snd (revoke_layer_role r s' request' L T)) request' L T)
           = snd (revoke_layer_role r s' request' L T)"
    by (simp add: snd_revoke delete_twice)
  from one twice show ?thesis by simp
qed

theorem revoke_idempotent_witness:
  "has_layer_permissions ex_db (get_token_key (ex_req ''k1'')) ''L1'' OWNER
     \<and> \<not> bound ex_db ''t2'' ''L1'' EDITOR
     \<and> revoke_layer_role EDITOR ex_db (ex_req ''k1'') ''L1'' ''t2''
         = (Inr (json_error ''Removed access for token.''), ex_db)"
proof -
  have h: "\<not> bound ex_db ''t2'' ''L1'' EDITOR" by (simp add: bound_def ex_db_def)
  note t = revoke_idempotent [OF ex_caller_owner h, THEN conjunct1]
  show ?thesis by (intro conjI ex_caller_owner h t)
qed

text \<open>
  C10. Revoking a role touches nothing else. The layer role table after the operation is
  the table before it without the rows that match token, layer and role all three (and
  the same table when the caller fails the Owner check); the view role table, the tokens
  and the layers are unchanged. In particular, after revoking Viewer from a token that
  holds Owner on the layer, the Owner binding is still there and the token still passes
  the Viewer check.
\<close>

theorem revoke_frame:
  "datalayerroles (snd (revoke_layer_role r s request L T)) =
     (if has_layer_permissions s (get_token_key request) L OWNER
      then filter (\<lambda>b. \<not> (dlr_token_id b = T \<and> dlr_layer_id b = L \<and> dlr_role b = r))
             (datalayerroles s)
      else datalayerroles s)
   \<and> geoviewroles (snd (revoke_layer_role r s request L T)) = geoviewroles s
   \<and> apitokens (snd (revoke_layer_role r s request L T)) = apitokens s
   \<and> datalayers (snd (revoke_layer_role r s request L T)) = datalayers s
   \<and> (tokens_ok s \<and> c \<in> set (apitokens s) \<and> tok_key c \<noteq> []
        \<and> bound s (tok_uid c) (dl_uid l) OWNER \<longrightarrow>
        bound (snd (revoke_layer_role VIEWER s request (dl_uid l) (tok_uid c)))
          (tok_uid c) (dl_uid l) OWNER
      \<and> has_permissions (snd (revoke_layer_role VIEWER s request (dl_uid l) (tok_uid c)))
          l (Some (tok_key c)) VIEWER)"
proof -
  have frame: "datalayerroles (snd (revoke_layer_role r s request L T)) =
     (if has_layer_permissions s (get_token_key request) L OWNER
      then filter (\<lambda>b. \<not> (dlr_token_id b = T \<and> dlr_layer_id b = L \<and> dlr_role b = r))
             (datalayerroles s)
      else datalayerroles s)"
    by (simp add: snd_revoke delete_frame)
  have other: "geoviewroles (snd (revoke_layer_role r s request L T)) = geoviewroles s"
    "apitokens (snd (revoke_layer_role r s request L T)) = apitokens s"
    "datalayers (snd (revoke_layer_role r s request L T)) = datalayers s"
    by (simp_all add: snd_revoke delete_frame)
  have keep: "bound (snd (revoke_layer_role VIEWER s request (dl_uid l) (tok_uid c)))
          (tok_uid c) (dl_uid l) OWNER
      \<and> has_permissions (snd (revoke_layer_role VIEWER s request (dl_uid l) (tok_uid c)))
          l (Some (tok_key c)) VIEWER"
    if h: "tokens_ok s" "c \<in> set (apitokens s)" "tok_key c \<noteq> []"
      "bound s (tok_uid c) (dl_uid l) OWNER"
  proof -
    let ?s' = "snd (revoke_layer_role VIEWER s request (dl_uid l) (tok_uid c))"
    have sr: "?s' = (if has_layer_permissions s (get_token_key request) (dl_uid l) OWNER
        then DataLayerRole_delete s (dl_uid l) VIEWER (tok_uid c) else s)"
      by (rule snd_revoke)
    have b: "bound ?s' (tok_uid c) (dl_uid l) OWNER"
      unfolding sr using h(4) by (simp add: bound_delete_other)
    have "tokens_ok ?s'" unfolding sr using h(1) by (simp add: tokens_ok_delete)
    moreover have "c \<in> set (apitokens ?s')" unfolding sr using h(2) by (simp add: delete_frame)
    ultimately have "has_permissions ?s' l (Some (tok_key c)) VIEWER"
      using h(3) b by (rule owner_passes_viewer)
    with b show ?thesis by simp
  qed
  from frame other keep show ?thesis by simp
qed

lemma ex_shared_owner: "has_layer_permissions ex_shared (get_token_key (ex_req ''k1'')) ''L1'' OWNER"
  by (simp add: ex_key has_layer_permissions_def has_permissions_def filter_key_layer_role_def
      token_has_key_def ex_shared_def ex_db_def ex_L1_def ex_L2_def ex_P_def ex_t1_def ex_t2_def)

theorem revoke_frame_witness:
  "has_layer_permissions ex_shared (get_token_key (ex_req ''k1'')) ''L1'' OWNER
     \<and> tokens_ok ex_shared \<and> ex_t1 \<in> set (apitokens ex_shared) \<and> tok_key ex_t1 \<noteq> []
     \<and> bound ex_shared (tok_uid ex_t1) (dl_uid ex_L1) OWNER
     \<and> datalayerroles (snd (revoke_layer_role VIEWER ex_shared (ex_req ''k1'') ''L1'' ''t1'')) =
         [\<lparr>dlr_token_id = ''t1'', dlr_role = OWNER, dlr_layer_id = ''L1''\<rparr>,
          \<lparr>dlr_token_id = ''t2'', dlr_role = VIEWER, dlr_layer_id = ''L1''\<rparr>]
     \<and> has_permissions
         (snd (revoke_layer_role VIEWER ex_shared (ex_req ''k1'') (dl_uid ex_L1) (tok_uid ex_t1)))
         ex_L1 (Some (tok_key ex_t1)) VIEWER"
proof -
  have h1: "tokens_ok ex_shared"
    by (simp add: tokens_ok_def ex_shared_def ex_db_def ex_t1_def ex_t2_def)
  have h2: "ex_t1 \<in> set (apitokens ex_shared)" by (simp add: ex_shared_def ex_db_def)
  have h3: "tok_key ex_t1 \<noteq> []" by (simp add: ex_t1_def)
  have h4: "bound ex_shared (tok_uid ex_t1) (dl_uid ex_L1) OWNER"
    by (simp add: bound_def ex_shared_def ex_t1_def ex_L1_def)
  note t = revoke_frame [of VIEWER ex_shared "ex_req ''k1''" "''L1''" "''t1''" ex_t1 ex_L1]
  from t have "datalayerroles (snd (revoke_layer_role VIEWER ex_shared (ex_req ''k1'') ''L1'' ''t1'')) =
     (if has_layer_permissions ex_shared (get_token_key (ex_req ''k1'')) ''L1'' OWNER
      then filter (\<lambda>b. \<not> (dlr_token_id b = ''t1'' \<and> dlr_layer_id b = ''L1'' \<and> dlr_role b = VIEWER))
             (datalayerroles ex_shared)
      else datalayerroles ex_shared)"
    by (rule conjunct1)
  also have "\<dots> = [\<lparr>dlr_token_id = ''t1'', dlr_role = OWNER, dlr_layer_id = ''L1''\<rparr>,
          \<lparr>dlr_token_id = ''t2'', dlr_role = VIEWER, dlr_layer_id = ''L1''\<rparr>]"
    by (simp add: ex_shared_owner) (simp add: ex_shared_def)
  finally have a: "datalayerroles (snd (revoke_layer_role VIEWER ex_shared (ex_req ''k1'') ''L1'' ''t1'')) =
         [\<lparr>dlr_token_id = ''t1'', dlr_role = OWNER, dlr_layer_id = ''L1''\<rparr>,
          \<lparr>dlr_token_id = ''t2'', dlr_role = VIEWER, dlr_layer_id = ''L1''\<rparr>]" .
  from t have "tokens_ok ex_shared \<and> ex_t1 \<in> set (apitokens ex_shared) \<and> tok_key ex_t1 \<noteq> []
        \<and> bound ex_shared (tok_uid ex_t1) (dl_uid ex_L1) OWNER \<longrightarrow>
        bound (snd (revoke_layer_role VIEWER ex_shared (ex_req ''k1'') (dl_uid ex_L1) (tok_uid ex_t1)))
          (tok_uid ex_t1) (dl_uid ex_L1) OWNER
      \<and> has_permissions (snd (revoke_layer_role VIEWER ex_shared (ex_req ''k1'') (dl_uid ex_L1) (tok_uid ex_t1)))
          ex_L1 (Some (tok_key ex_t1)) VIEWER"
    by (elim conjE)
  with h1 h2 h3 h4 have b: "has_permissions
         (snd (revoke_layer_role VIEWER ex_shared (ex_req ''k1'') (dl_uid ex_L1) (tok_uid ex_t1)))
         ex_L1 (Some (tok_key ex_t1)) VIEWER"
    by (elim impE conjE) (intro conjI)
  show ?thesis by (intro conjI ex_shared_owner h1 h2 h3 h4 a b)
qed

lemma grant_editor_viewer:
  assumes "has_layer_permissions s (get_token_key request) (dl_uid l) OWNER" and "r \<noteq> OWNER"
    and "tokens_ok s" and "c \<in> set (apitokens s)" and "tok_key c \<noteq> []"
  shows "\<exists>s'. grant_layer_role r s request (dl_uid l) (tok_uid c)
                 = (Inr (json_error ''Added access for token.''), s')
            \<and> bound s' (tok_uid c) (dl_uid l) r
            \<and> has_permissions s' l (Some (tok_key c)) r"
proof -
  let ?s' = "DataLayerRole_save s
      \<lparr>dlr_token_id = tok_uid c, dlr_role = r, dlr_layer_id = dl_uid l\<rparr>"
  have res: "grant_layer_role r s request (dl_uid l) (tok_uid c)
      = (Inr (json_error ''Added access for token.''), ?s')"
    using assms(1,2) by (cases r) (simp_all add: addLayerEditor_def addLayerViewer_def)
  have b: "bound ?s' (tok_uid c) (dl_uid l) r" by (simp add: bound_save)
  have "tokens_ok ?s'" "c \<in> set (apitokens ?s')"
    using assms(3,4) by (simp_all add: DataLayerRole_save_def tokens_ok_def)
  then have "has_permissions ?s' l (Some (tok_key c)) r"
    using assms(5) b by (rule bound_passes)
  with res b show ?thesis by blast
qed

lemma ex_t2_not_owner: "\<not> has_permissions ex_db ex_L1 (Some ''k2'') OWNER"
  by (simp add: has_permissions_def filter_key_layer_role_def token_has_key_def
      ex_db_def ex_L1_def ex_t1_def ex_t2_def)

text \<open>
  C2 at the Owner role. The caller with key \<open>k1\<close> owns layer \<open>L1\<close> and grants
  Owner to the stored token \<open>t2\<close>: the operation ends in \<open>TypeError\<close>, the store
  is as before, and the key of \<open>t2\<close> does not pass the Owner check. The lemma
  \<open>grant_editor_viewer\<close> shows the Editor and Viewer grants doing what the claim says.
\<close>

theorem addLayerOwner_raises:
  "has_layer_permissions ex_db (get_token_key (ex_req ''k1'')) ''L1'' OWNER
     \<and> ex_t2 \<in> set (apitokens ex_db)
     \<and> grant_layer_role OWNER ex_db (ex_req ''k1'') ''L1'' (tok_uid ex_t2) = (Inl TypeError, ex_db)
     \<and> \<not> has_permissions (snd (grant_layer_role OWNER ex_db (ex_req ''k1'') ''L1'' (tok_uid ex_t2)))
           ex_L1 (Some ''k2'') OWNER"
proof -
  have h: "ex_t2 \<in> set (apitokens ex_db)" by (simp add: ex_db_def)
  have r: "grant_layer_role OWNER ex_db (ex_req ''k1'') ''L1'' (tok_uid ex_t2) = (Inl TypeError, ex_db)"
    using ex_caller_owner by (simp add: addLayerOwner_def)
  have n: "\<not> has_permissions (snd (grant_layer_role OWNER ex_db (ex_req ''k1'') ''L1'' (tok_uid ex_t2)))
           ex_L1 (Some ''k2'') OWNER"
    unfolding r using ex_t2_not_owner by simp
  show ?thesis by (intro conjI ex_caller_owner h r n)
qed

section \<open>Properties of creating a layer\<close>










section \<open>Properties of the feature index\<close>

lemma filter_key_layer_role_features:
  "filter_key_layer_role (s\<lparr>features := fs\<rparr>) k u r = filter_key_layer_role s k u r"
  by (simp add: filter_key_layer_role_def token_has_key_def)

lemma has_permissions_features:
  "has_permissions (s\<lparr>features := fs\<rparr>) l k r = has_permissions s l k r"
  unfolding has_permissions_def filter_key_layer_role_features by (rule refl)

lemma has_layer_permissions_features:
  "has_layer_permissions (s\<lparr>features := fs\<rparr>) k u r = has_layer_permissions s k u r"
  by (simp add: has_layer_permissions_def has_permissions_features)

lemma hashes_ok_append:
  assumes "hashes_ok s" and "\<not> list_ex (\<lambda>f. f_hash f = Some h) (features s)"
    and "f_hash f = Some h"
  shows "hashes_ok (s\<lparr>features := features s @ [f]\<rparr>)"
proof -
  from assms(2) have "h \<notin> set (List.map_filter f_hash (features s))"
    by (auto simp: map_filter_def list_ex_iff)
  with assms(1,3) show ?thesis
    by (simp add: hashes_ok_def map_filter_def)
qed

text \<open>
  C7. Two creations with the same geometry and properties, by callers with Editor on
  their layers, in a store that has no feature with that content hash: the first succeeds
  and appends one feature with the hash; the second, under any layer, fails with
  \<open>DuplicateContent\<close> and returns the store unchanged. Uniqueness of the hashes is
  kept.
\<close>

theorem create_feature_duplicate:
  assumes "has_layer_permissions s k1 L1 EDITOR" and "has_layer_permissions s k2 L2 EDITOR"
    and "\<not> list_ex (\<lambda>f. f_hash f = Some (H g p)) (features s)"
  shows "\<exists>f s1. create_feature H s u1 g L1 p k1 = (Inr f, s1)
           \<and> features s1 = features s @ [f]
           \<and> f_hash f = Some (H g p) \<and> f_layer f = Some L1
           \<and> create_feature H s1 u2 g L2 p k2 = (Inl DuplicateContent, s1)
           \<and> (hashes_ok s \<longrightarrow> hashes_ok s1)"
proof -
  define f where "f = \<lparr>f_uid = u1, f_geom = Some g, f_properties = p,
                       f_layer = Some L1, f_hash = Some (H g p)\<rparr>"
  define s1 where "s1 = s\<lparr>features := features s @ [f]\<rparr>"
  have first: "create_feature H s u1 g L1 p k1 = (Inr f, s1)"
    using assms(1,3) by (simp add: create_feature_def Let_def f_def s1_def)
  have feats: "features s1 = features s @ [f]" by (simp add: s1_def)
  have fh: "f_hash f = Some (H g p)" "f_layer f = Some L1" by (simp_all add: f_def)
  have perm: "has_layer_permissions s1 k2 L2 EDITOR"
    using assms(2) by (simp add: s1_def has_layer_permissions_features)
  have dup: "list_ex (\<lambda>f. f_hash f = Some (H g p)) (features s1)"
    using fh by (simp add: feats)
  from perm dup have second: "create_feature H s1 u2 g L2 p k2 = (Inl DuplicateContent, s1)"
    by (simp add: create_feature_def Let_def)
  have inv: "hashes_ok s \<longrightarrow> hashes_ok s1"
    unfolding s1_def using hashes_ok_append [OF _ assms(3) fh(1)] by blast
  from first feats fh second inv show ?thesis by blast
qed

lemma ex_caller_editor: "has_layer_permissions ex_db (Some ''k1'') ''L1'' EDITOR"
  by (simp add: has_layer_permissions_def has_permissions_def filter_key_layer_role_def
      token_has_key_def ex_db_def ex_L1_def ex_L2_def ex_P_def ex_t1_def ex_t2_def)

theorem create_feature_duplicate_witness:
  "has_layer_permissions ex_db (Some ''k1'') ''L1'' EDITOR
     \<and> \<not> list_ex (\<lambda>f. f_hash f = Some (ex_hash (5, 5, 5, 5) None)) (features ex_db)
     \<and> (\<exists>f s1. create_feature ex_hash ex_db ''F3'' (5, 5, 5, 5) ''L1'' None (Some ''k1'') = (Inr f, s1)
           \<and> create_feature ex_hash s1 ''F4'' (5, 5, 5, 5) ''L1'' None (Some ''k1'')
               = (Inl DuplicateContent, s1))"
proof -
  have h: "\<not> list_ex (\<lambda>f. f_hash f = Some (ex_hash (5, 5, 5, 5) None)) (features ex_db)"
    by (simp add: ex_db_def)
  from create_feature_duplicate [where H = ex_hash and g = "(5, 5, 5, 5)" and p = None
      and ?u1.0 = "''F3''" and ?u2.0 = "''F4''", OF ex_caller_editor ex_caller_editor h]
  obtain f s1 where a: "create_feature ex_hash ex_db ''F3'' (5, 5, 5, 5) ''L1'' None (Some ''k1'') = (Inr f, s1)"
    and b: "create_feature ex_hash s1 ''F4'' (5, 5, 5, 5) ''L1'' None (Some ''k1'') = (Inl DuplicateContent, s1)"
    by (elim exE conjE)
  from a b have e: "\<exists>f s1. create_feature ex_hash ex_db ''F3'' (5, 5, 5, 5) ''L1'' None (Some ''k1'') = (Inr f, s1)
           \<and> create_feature ex_hash s1 ''F4'' (5, 5, 5, 5) ''L1'' None (Some ''k1'')
               = (Inl DuplicateContent, s1)"
    by (intro exI conjI)
  show ?thesis by (intro conjI ex_caller_editor h e)
qed

end
